theory Spec2Isabelle
  imports Complex_Main
begin

section \<open>Data model (packages/execution/src/types.ts)\<close>

text \<open>
  A JavaScript \<open>number\<close> is modelled as a \<^typ>\<open>real\<close>: arithmetic on finite values is
  exact, and the theorems below keep every divisor of the engine away from zero by their
  hypotheses. The one division of the runner whose divisor may be zero (order sizing) is
  modelled separately, with the special results of IEEE-754.

  The field names of the three interfaces overlap in the source (\<open>qty\<close>, \<open>cash\<close>,
  \<open>position\<close>, \<open>equity\<close>, \<open>symbol\<close>); the fields of \<open>ExecutionContext\<close> carry the prefix
  \<open>ctx_\<close> and those of \<open>ExecutionResult\<close> the prefix \<open>res_\<close> where they would clash.
\<close>

datatype ActionType = BUY | SELL | HOLD

datatype PositionSide = LONG | SHORT | NONE

record Position =
  symbol :: string
  qty :: real
  avgPrice :: real
  side :: PositionSide

record ExecutionContext =
  ctx_symbol :: string
  currentPrice :: real
  position :: Position
  cash :: real
  equity :: real

text \<open>
  The two \<open>throw new Error(...)\<close> of \<open>PaperExecutor.buy\<close>. The message of the source is
  built from \<open>need\<close> and \<open>have\<close> with \<open>toFixed(2)\<close>; the model keeps the two numbers.
\<close>

datatype exec_error =
  InsufficientCash real real
  | InsufficientCashForLong real real

record ExecutionResult =
  success :: bool
  action :: ActionType
  res_qty :: real
  price :: real
  res_cash :: real
  res_position :: Position
  res_equity :: real
  pnl :: "real option"
  error :: "exec_error option"

section \<open>The paper executor (packages/execution/src/paper-executor.ts)\<close>

record PaperExecutor =
  slippage :: real
  takerFee :: real

text \<open>The constructor: both parameters are optional and have defaults.\<close>

definition new_PaperExecutor :: "real option \<Rightarrow> real option \<Rightarrow> PaperExecutor" where
  "new_PaperExecutor s f =
     \<lparr> slippage = (case s of None \<Rightarrow> 0.001 | Some v \<Rightarrow> v),
       takerFee = (case f of None \<Rightarrow> 0.0005 | Some v \<Rightarrow> v) \<rparr>"

definition applySlippage :: "PaperExecutor \<Rightarrow> real \<Rightarrow> ActionType \<Rightarrow> real" where
  "applySlippage ex p a =
     (if a = BUY then p * (1 + slippage ex)
      else if a = SELL then p * (1 - slippage ex)
      else p)"

definition calculatePositionValue :: "Position \<Rightarrow> real \<Rightarrow> real" where
  "calculatePositionValue pos cur =
     (if side pos = NONE then 0
      else (let q = \<bar>qty pos\<bar> in
            if side pos = LONG then (cur - avgPrice pos) * q
            else (avgPrice pos - cur) * q))"

definition buy :: "PaperExecutor \<Rightarrow> real \<Rightarrow> real \<Rightarrow> ExecutionContext \<Rightarrow> exec_error + ExecutionResult" where
  "buy ex q p ctx =
     (if side (position ctx) = NONE \<or> side (position ctx) = LONG then
        (let cost = q * p;
             fee = cost * takerFee ex;
             totalCost = cost + fee
         in if totalCost > cash ctx then Inl (InsufficientCash totalCost (cash ctx))
            else
              (let totalQty = qty (position ctx) + q;
                   avg = (if side (position ctx) = NONE then p
                          else (avgPrice (position ctx) * qty (position ctx) + p * q) / totalQty);
                   newPosition = \<lparr> symbol = ctx_symbol ctx, qty = totalQty, avgPrice = avg, side = LONG \<rparr>;
                   newCash = cash ctx - totalCost;
                   newEquity = newCash + calculatePositionValue newPosition (currentPrice ctx)
               in Inr \<lparr> success = True, action = BUY, res_qty = q, price = p, res_cash = newCash,
                        res_position = newPosition, res_equity = newEquity, pnl = Some 0,
                        error = None \<rparr>))
      else
        (let shortQty = \<bar>qty (position ctx)\<bar>
         in if q \<ge> shortQty then
              (let closeCost = shortQty * p;
                   closeFee = closeCost * takerFee ex;
                   totalCloseCost = closeCost + closeFee;
                   pl = (avgPrice (position ctx) - p) * shortQty - closeFee;
                   remainingQty = q - shortQty;
                   newCash = cash ctx + pl
               in if remainingQty > 0 then
                    (let longCost = remainingQty * p;
                         longFee = longCost * takerFee ex;
                         totalLongCost = longCost + longFee
                     in if totalLongCost > newCash then Inl (InsufficientCashForLong totalLongCost newCash)
                        else
                          (let newCash' = newCash - totalLongCost;
                               newPosition = \<lparr> symbol = ctx_symbol ctx, qty = remainingQty, avgPrice = p, side = LONG \<rparr>;
                               newEquity = newCash' + calculatePositionValue newPosition (currentPrice ctx)
                           in Inr \<lparr> success = True, action = BUY, res_qty = q, price = p,
                                    res_cash = newCash', res_position = newPosition,
                                    res_equity = newEquity, pnl = Some pl, error = None \<rparr>))
                  else
                    (let newPosition = \<lparr> symbol = ctx_symbol ctx, qty = 0, avgPrice = 0, side = NONE \<rparr>;
                         newEquity = newCash + calculatePositionValue newPosition (currentPrice ctx)
                     in Inr \<lparr> success = True, action = BUY, res_qty = q, price = p,
                              res_cash = newCash, res_position = newPosition,
                              res_equity = newEquity, pnl = Some pl, error = None \<rparr>))
            else
              (let cost = q * p;
                   fee = cost * takerFee ex;
                   pl = (avgPrice (position ctx) - p) * q - fee;
                   newPosition = \<lparr> symbol = ctx_symbol ctx, qty = qty (position ctx) + q,
                                   avgPrice = avgPrice (position ctx), side = SHORT \<rparr>;
                   newCash = cash ctx + pl;
                   newEquity = newCash + calculatePositionValue newPosition (currentPrice ctx)
               in Inr \<lparr> success = True, action = BUY, res_qty = q, price = p, res_cash = newCash,
                        res_position = newPosition, res_equity = newEquity, pnl = Some pl,
                        error = None \<rparr>)))"

definition sell :: "PaperExecutor \<Rightarrow> real \<Rightarrow> real \<Rightarrow> ExecutionContext \<Rightarrow> ExecutionResult" where
  "sell ex q p ctx =
     (if side (position ctx) = NONE \<or> side (position ctx) = SHORT then
        (let proceeds = q * p;
             fee = proceeds * takerFee ex;
             netProceeds = proceeds - fee;
             totalQty = \<bar>qty (position ctx)\<bar> + q;
             avg = (if side (position ctx) = NONE then p
                    else (avgPrice (position ctx) * \<bar>qty (position ctx)\<bar> + p * q) / totalQty);
             newPosition = \<lparr> symbol = ctx_symbol ctx, qty = - totalQty, avgPrice = avg, side = SHORT \<rparr>;
             newCash = cash ctx + netProceeds;
             newEquity = newCash + calculatePositionValue newPosition (currentPrice ctx)
         in \<lparr> success = True, action = SELL, res_qty = q, price = p, res_cash = newCash,
              res_position = newPosition, res_equity = newEquity, pnl = Some 0, error = None \<rparr>)
      else
        (let longQty = qty (position ctx)
         in if q \<ge> longQty then
              (let closeProceeds = longQty * p;
                   closeFee = closeProceeds * takerFee ex;
                   netCloseProceeds = closeProceeds - closeFee;
                   pl = (p - avgPrice (position ctx)) * longQty - closeFee;
                   remainingQty = q - longQty;
                   newCash = cash ctx + netCloseProceeds
               in if remainingQty > 0 then
                    (let shortProceeds = remainingQty * p;
                         shortFee = shortProceeds * takerFee ex;
                         netShortProceeds = shortProceeds - shortFee;
                         newCash' = newCash + netShortProceeds;
                         newPosition = \<lparr> symbol = ctx_symbol ctx, qty = - remainingQty, avgPrice = p, side = SHORT \<rparr>;
                         newEquity = newCash' + calculatePositionValue newPosition (currentPrice ctx)
                     in \<lparr> success = True, action = SELL, res_qty = q, price = p,
                          res_cash = newCash', res_position = newPosition,
                          res_equity = newEquity, pnl = Some pl, error = None \<rparr>)
                  else
                    (let newPosition = \<lparr> symbol = ctx_symbol ctx, qty = 0, avgPrice = 0, side = NONE \<rparr>;
                         newEquity = newCash + calculatePositionValue newPosition (currentPrice ctx)
                     in \<lparr> success = True, action = SELL, res_qty = q, price = p,
                          res_cash = newCash, res_position = newPosition,
                          res_equity = newEquity, pnl = Some pl, error = None \<rparr>))
            else
              (let proceeds = q * p;
                   fee = proceeds * takerFee ex;
                   netProceeds = proceeds - fee;
                   pl = (p - avgPrice (position ctx)) * q - fee;
                   newPosition = \<lparr> symbol = ctx_symbol ctx, qty = qty (position ctx) - q,
                                   avgPrice = avgPrice (position ctx), side = LONG \<rparr>;
                   newCash = cash ctx + netProceeds;
                   newEquity = newCash + calculatePositionValue newPosition (currentPrice ctx)
               in \<lparr> success = True, action = SELL, res_qty = q, price = p, res_cash = newCash,
                    res_position = newPosition, res_equity = newEquity, pnl = Some pl,
                    error = None \<rparr>)))"

text \<open>
  \<open>execute\<close>: HOLD echoes the context; otherwise the fill price is computed and
  \<open>buy\<close> or \<open>sell\<close> runs inside \<open>try\<close>; the \<open>catch\<close> branch returns the context's
  values with \<open>success = false\<close>.
\<close>

definition execute :: "PaperExecutor \<Rightarrow> ActionType \<Rightarrow> real \<Rightarrow> ExecutionContext \<Rightarrow> ExecutionResult" where
  "execute ex a q ctx =
     (if a = HOLD then
        \<lparr> success = True, action = HOLD, res_qty = 0, price = currentPrice ctx,
          res_cash = cash ctx, res_position = position ctx, res_equity = equity ctx,
          pnl = None, error = None \<rparr>
      else
        (let executionPrice = applySlippage ex (currentPrice ctx) a
         in case (if a = BUY then buy ex q executionPrice ctx
                  else Inr (sell ex q executionPrice ctx)) of
              Inr r \<Rightarrow> r
            | Inl e \<Rightarrow>
                \<lparr> success = False, action = a, res_qty = 0, price = currentPrice ctx,
                  res_cash = cash ctx, res_position = position ctx, res_equity = equity ctx,
                  pnl = None, error = Some e \<rparr>))"

section \<open>Account conventions of the specification\<close>

text \<open>
  The position invariant of the data model: a flat position has quantity and average
  price zero, a LONG position a positive quantity, a SHORT position a quantity of
  positive magnitude.
\<close>

definition pos_inv :: "Position \<Rightarrow> bool" where
  "pos_inv pos =
     (case side pos of
        NONE \<Rightarrow> qty pos = 0 \<and> avgPrice pos = 0
      | LONG \<Rightarrow> 0 < qty pos
      | SHORT \<Rightarrow> 0 < \<bar>qty pos\<bar>)"

text \<open>
  The unrealized profit and loss in the specification's words (the source's counterpart is
  \<open>calculatePositionValue\<close>, which takes the magnitude of the quantity on both sides).
\<close>

definition unrealizedPnL :: "Position \<Rightarrow> real \<Rightarrow> real" where
  "unrealizedPnL pos cur =
     (case side pos of
        LONG \<Rightarrow> (cur - avgPrice pos) * qty pos
      | SHORT \<Rightarrow> (avgPrice pos - cur) * \<bar>qty pos\<bar>
      | NONE \<Rightarrow> 0)"

text \<open>The flat position the engine writes after a full close without flip.\<close>

definition flat :: "string \<Rightarrow> Position" where
  "flat s = \<lparr> symbol = s, qty = 0, avgPrice = 0, side = NONE \<rparr>"

section \<open>The decision provider (packages/agent/src/llm-agent.ts)\<close>

text \<open>
  The value of \<open>JSON.parse\<close>. \<open>undefined\<close> (a missing property) is \<open>None\<close> of
  \<^typ>\<open>'a option\<close>. The field \<open>reason\<close> of a decision is whatever truthy value the
  response carried, so it is a JSON value in the model.
\<close>

datatype json =
  JNull
  | JBool bool
  | JNumber real
  | JString string
  | JArray "json list"
  | JObject "(string \<times> json) list"

record AgentDecision =
  dec_action :: ActionType
  dec_qty :: real
  reason :: json

datatype parse_error = NoJsonFound | SyntaxError | TypeError | InvalidAction

text \<open>
  \<open>text.match(/\{[\s\S]*\}/)\<close>: the match starts at the first opening brace and, the
  star being greedy, ends at the last closing brace after it; there is no match when no
  closing brace follows the first opening one.
\<close>

definition jsonMatch :: "string \<Rightarrow> string option" where
  "jsonMatch txt =
     (let t = dropWhile (\<lambda>c. c \<noteq> CHR ''{'') txt
      in if CHR ''}'' \<in> set t then Some (rev (dropWhile (\<lambda>c. c \<noteq> CHR ''}'') (rev t)))
         else None)"

text \<open>
  Property access \<open>parsed.k\<close>: a \<open>TypeError\<close> on \<open>null\<close>, the last binding of the key in
  an object (as \<open>JSON.parse\<close> keeps it), \<open>undefined\<close> on every other value.
\<close>

fun get_property :: "json \<Rightarrow> string \<Rightarrow> parse_error + json option" where
  "get_property JNull k = Inl TypeError"
| "get_property (JObject kvs) k = Inr (map_of (rev kvs) k)"
| "get_property v k = Inr None"

fun truthy :: "json option \<Rightarrow> bool" where
  "truthy None = False"
| "truthy (Some JNull) = False"
| "truthy (Some (JBool b)) = b"
| "truthy (Some (JNumber r)) = (r \<noteq> 0)"
| "truthy (Some (JString s)) = (s \<noteq> [])"
| "truthy (Some v) = True"

text \<open>\<open>['BUY', 'SELL', 'HOLD'].includes(v)\<close>, with the action the string names.\<close>

definition includes_action :: "json option \<Rightarrow> ActionType option" where
  "includes_action v =
     (if v = Some (JString ''BUY'') then Some BUY
      else if v = Some (JString ''SELL'') then Some SELL
      else if v = Some (JString ''HOLD'') then Some HOLD
      else None)"

text \<open>The body of the \<open>try\<close> block after \<open>JSON.parse\<close> has returned \<open>parsed\<close>.\<close>

definition validate :: "json \<Rightarrow> parse_error + AgentDecision" where
  "validate parsed =
     (case get_property parsed ''action'' of
        Inl e \<Rightarrow> Inl e
      | Inr act \<Rightarrow>
          (if \<not> truthy act \<or> includes_action act = None then Inl InvalidAction
           else
             (case get_property parsed ''qty'' of
                Inl e \<Rightarrow> Inl e
              | Inr qv \<Rightarrow>
                  (let q = (case qv of Some (JNumber r) \<Rightarrow> r | _ \<Rightarrow> 0);
                       clampedQty = max 0 (min 1 q)
                   in case get_property parsed ''reason'' of
                        Inl e \<Rightarrow> Inl e
                      | Inr rv \<Rightarrow>
                          Inr \<lparr> dec_action = the (includes_action act), dec_qty = clampedQty,
                                reason = (if truthy rv then the rv
                                          else JString ''No reason provided'') \<rparr>))))"

text \<open>
  \<open>parseDecision\<close>. \<open>JSON.parse\<close> is a parameter: it returns the parsed value, or
  \<open>None\<close> where it throws a \<open>SyntaxError\<close>. Every error of the \<open>try\<close> block ends in
  the \<open>catch\<close> branch.
\<close>

definition parseDecision_try :: "(string \<Rightarrow> json option) \<Rightarrow> string \<Rightarrow> parse_error + AgentDecision" where
  "parseDecision_try json_parse txt =
     (case jsonMatch txt of
        None \<Rightarrow> Inl NoJsonFound
      | Some m \<Rightarrow>
          (case json_parse m of
             None \<Rightarrow> Inl SyntaxError
           | Some parsed \<Rightarrow> validate parsed))"

definition parseDecision :: "(string \<Rightarrow> json option) \<Rightarrow> string \<Rightarrow> AgentDecision" where
  "parseDecision json_parse txt =
     (case parseDecision_try json_parse txt of
        Inr d \<Rightarrow> d
      | Inl e \<Rightarrow> \<lparr> dec_action = HOLD, dec_qty = 0, reason = JString ''Failed to parse decision'' \<rparr>)"

text \<open>
  \<open>decide\<close>: the response of the model is a parameter, \<open>None\<close> where the request throws
  or the first content block is not text.
\<close>

definition decide :: "(string \<Rightarrow> json option) \<Rightarrow> string option \<Rightarrow> AgentDecision" where
  "decide json_parse response =
     (case response of
        Some txt \<Rightarrow> parseDecision json_parse txt
      | None \<Rightarrow> \<lparr> dec_action = HOLD, dec_qty = 0, reason = JString ''Error occurred'' \<rparr>)"

section \<open>The price oracle (apps/momentum-agent/src/price-manager.ts)\<close>

definition getPrice :: "(string \<rightharpoonup> real) \<Rightarrow> string \<Rightarrow> real" where
  "getPrice prices s = (case prices s of Some p \<Rightarrow> p | None \<Rightarrow> 0)"

section \<open>The runner (packages/agent/src/agent-runner.ts)\<close>

text \<open>
  The result of a JavaScript division of two finite numbers: the quotient when the
  divisor is not zero and, as IEEE-754 has it, an infinity of the dividend's sign or
  \<open>NaN\<close> when it is (the zero being the positive one, which \<open>?? 0\<close> yields).
\<close>

datatype jsnum = Finite real | PosInfinity | NegInfinity | NaN

definition js_divide :: "real \<Rightarrow> real \<Rightarrow> jsnum" where
  "js_divide x y =
     (if y \<noteq> 0 then Finite (x / y)
      else if 0 < x then PosInfinity
      else if x < 0 then NegInfinity
      else NaN)"

text \<open>
  The \<open>Executor\<close> interface: \<open>None\<close> is a call that throws (a rejected promise). The
  quantity it receives is the sized one, finite or not.
\<close>

type_synonym Executor = "ActionType \<Rightarrow> jsnum \<Rightarrow> ExecutionContext \<Rightarrow> ExecutionResult option"

text \<open>
  The fields of \<open>AgentRunner\<close> that \<open>onTick\<close> and \<open>execute\<close> read or write. \<open>pending\<close> is not a
  field of the class: it holds the \<open>context\<close> that the suspended call of \<open>execute\<close> keeps
  in its closure while it awaits the decision, and is \<open>None\<close> when no call is suspended.
  The \<open>timestamp\<close> that \<open>AgentContext\<close> adds is read by the decision provider only and
  is left out.
\<close>

record AgentRunner =
  r_symbol :: string
  r_cash :: real
  r_position :: Position
  r_equity :: real
  executing :: bool
  lastExecutionTime :: real
  cooldownMs :: real
  pending :: "ExecutionContext option"

definition new_AgentRunner :: "string \<Rightarrow> real \<Rightarrow> real option \<Rightarrow> AgentRunner" where
  "new_AgentRunner s initialCash cd =
     \<lparr> r_symbol = s, r_cash = initialCash, r_position = flat s, r_equity = initialCash,
       executing = False, lastExecutionTime = 0,
       cooldownMs = (case cd of None \<Rightarrow> 5000 | Some v \<Rightarrow> v), pending = None \<rparr>"

text \<open>The context built at the start of \<open>execute\<close> from the fields and the oracle's price.\<close>

definition snapshot :: "AgentRunner \<Rightarrow> real \<Rightarrow> ExecutionContext" where
  "snapshot st p =
     \<lparr> ctx_symbol = r_symbol st, currentPrice = p, position = r_position st,
       cash = r_cash st, equity = r_equity st \<rparr>"

text \<open>The commit at the end of \<open>execute\<close>: only a successful result is written back.\<close>

definition commit :: "AgentRunner \<Rightarrow> ExecutionResult \<Rightarrow> AgentRunner" where
  "commit st r =
     (if success r
      then st \<lparr> r_cash := res_cash r, r_position := res_position r, r_equity := res_equity r \<rparr>
      else st)"

text \<open>Order sizing: the fraction of equity becomes an absolute quantity.\<close>

definition absoluteQty :: "AgentDecision \<Rightarrow> real \<Rightarrow> real \<Rightarrow> jsnum" where
  "absoluteQty d eq cur =
     (if dec_action d = HOLD then Finite 0 else js_divide (dec_qty d * eq) cur)"

text \<open>
  What the runner does that the outside sees: a call of the decision provider with a
  context, a call of the executor, a call of \<open>onResult\<close>.
\<close>

datatype effect =
  Requested ExecutionContext
  | Executed ActionType jsnum ExecutionContext
  | Reported ExecutionResult

text \<open>
  \<open>onTick\<close> up to the first suspension of \<open>execute\<close> at \<open>await this.agent.decide\<close>:
  \<open>now\<close> is the value of \<open>Date.now()\<close>, \<open>p\<close> what the oracle returns when asked.
\<close>

definition onTick :: "real \<Rightarrow> real \<Rightarrow> AgentRunner \<Rightarrow> AgentRunner \<times> effect list" where
  "onTick now p st =
     (if executing st then (st, [])
      else if now - lastExecutionTime st < cooldownMs st then (st, [])
      else
        (let ctx = snapshot st p
         in (st \<lparr> executing := True, lastExecutionTime := now, pending := Some ctx \<rparr>,
             [Requested ctx])))"

text \<open>
  The rest of \<open>execute\<close> and the \<open>finally\<close> block of \<open>onTick\<close>, run when the decision
  arrives: sizing, the executor, the commit, \<open>onResult\<close>, and \<open>executing = false\<close>. An
  executor that throws skips the commit and \<open>onResult\<close>.
\<close>

definition resume :: "Executor \<Rightarrow> AgentDecision \<Rightarrow> AgentRunner \<Rightarrow> AgentRunner \<times> effect list" where
  "resume exec d st =
     (case pending st of
        None \<Rightarrow> (st, [])
      | Some ctx \<Rightarrow>
          (let q = absoluteQty d (r_equity st) (currentPrice ctx)
           in case exec (dec_action d) q ctx of
                None \<Rightarrow> (st \<lparr> executing := False, pending := None \<rparr>,
                          [Executed (dec_action d) q ctx])
              | Some result \<Rightarrow>
                  ((commit st result) \<lparr> executing := False, pending := None \<rparr>,
                   [Executed (dec_action d) q ctx, Reported result])))"

text \<open>The decision provider throws: \<open>catch\<close> logs, \<open>finally\<close> clears the flag.\<close>

definition fault :: "AgentRunner \<Rightarrow> AgentRunner \<times> effect list" where
  "fault st =
     (case pending st of
        None \<Rightarrow> (st, [])
      | Some ctx \<Rightarrow> (st \<lparr> executing := False, pending := None \<rparr>, []))"

text \<open>
  The events of the single-threaded event loop that reach a runner, and a run over a
  list of them that collects the effects in order.
\<close>

datatype event = Tick real real | Decided AgentDecision | Faulted

fun step :: "Executor \<Rightarrow> event \<Rightarrow> AgentRunner \<Rightarrow> AgentRunner \<times> effect list" where
  "step exec (Tick now p) st = onTick now p st"
| "step exec (Decided d) st = resume exec d st"
| "step exec Faulted st = fault st"

fun run :: "Executor \<Rightarrow> event list \<Rightarrow> AgentRunner \<Rightarrow> AgentRunner \<times> effect list" where
  "run exec [] st = (st, [])"
| "run exec (e # es) st =
     (let (st1, out1) = step exec e st;
          (st2, out2) = run exec es st1
      in (st2, out1 @ out2))"

fun is_request :: "effect \<Rightarrow> bool" where
  "is_request (Requested c) = True"
| "is_request e = False"

fun is_execution :: "effect \<Rightarrow> bool" where
  "is_execution (Executed a q c) = True"
| "is_execution e = False"

fun is_tick :: "event \<Rightarrow> bool" where
  "is_tick (Tick now p) = True"
| "is_tick e = False"

text \<open>
  A sequence of BUY orders, each given as the market price and the quantity, executed by
  the paper executor on the runner's successive snapshots; \<open>None\<close> as soon as one fails.
\<close>

fun buys :: "PaperExecutor \<Rightarrow> AgentRunner \<Rightarrow> (real \<times> real) list \<Rightarrow> AgentRunner option" where
  "buys ex st [] = Some st"
| "buys ex st ((p, q) # os) =
     (let r = execute ex BUY q (snapshot st p)
      in if success r then buys ex (commit st r) os else None)"

section \<open>Concrete inputs\<close>

text \<open>An executor without slippage and without fee.\<close>

definition frictionless :: PaperExecutor where
  "frictionless = \<lparr> slippage = 0, takerFee = 0 \<rparr>"

text \<open>A LONG position of 1 bought at 100, no cash left, the market now at 110.\<close>

definition long_ctx :: ExecutionContext where
  "long_ctx =
     \<lparr> ctx_symbol = ''PERP'', currentPrice = 110,
       position = \<lparr> symbol = ''PERP'', qty = 1, avgPrice = 100, side = LONG \<rparr>,
       cash = 0, equity = 0 \<rparr>"

text \<open>A SHORT position of 2 sold at 100, no cash, the market now at 200.\<close>

definition short_ctx :: ExecutionContext where
  "short_ctx =
     \<lparr> ctx_symbol = ''PERP'', currentPrice = 200,
       position = \<lparr> symbol = ''PERP'', qty = - 2, avgPrice = 100, side = SHORT \<rparr>,
       cash = 0, equity = - 200 \<rparr>"

text \<open>The decision of the \<open>catch\<close> branch of \<open>parseDecision\<close>.\<close>

definition hold_failed :: AgentDecision where
  "hold_failed = \<lparr> dec_action = HOLD, dec_qty = 0, reason = JString ''Failed to parse decision'' \<rparr>"

text \<open>A response with a valid action and a quantity above 1, and what it parses to.\<close>

definition buy_five_text :: string where
  \<open>buy_five_text = ''Decision: {"action":"BUY","qty":5,"reason":"breakout"}''\<close>

definition buy_five :: json where
  "buy_five =
     JObject [(''action'', JString ''BUY''), (''qty'', JNumber 5), (''reason'', JString ''breakout'')]"

text \<open>A response whose action is none of the three, and what it parses to.\<close>

definition wait_text :: string where
  \<open>wait_text = ''{"action":"WAIT","qty":0.5}''\<close>

definition wait_json :: json where
  "wait_json = JObject [(''action'', JString ''WAIT''), (''qty'', JNumber (1/2))]"

text \<open>A response with a valid action and a quantity that is not a number.\<close>

definition sell_lots_text :: string where
  \<open>sell_lots_text = ''{"action":"SELL","qty":"lots"}''\<close>

definition sell_lots :: json where
  "sell_lots = JObject [(''action'', JString ''SELL''), (''qty'', JString ''lots'')]"

text \<open>\<open>JSON.parse\<close> on the three texts above; a \<open>SyntaxError\<close> on any other.\<close>

definition example_parse :: "string \<Rightarrow> json option" where
  \<open>example_parse m =
     (if m = ''{"action":"BUY","qty":5,"reason":"breakout"}'' then Some buy_five
      else if m = ''{"action":"WAIT","qty":0.5}'' then Some wait_json
      else if m = ''{"action":"SELL","qty":"lots"}'' then Some sell_lots
      else None)\<close>

text \<open>A decision to buy with half of the equity.\<close>

definition buy_half :: AgentDecision where
  "buy_half = \<lparr> dec_action = BUY, dec_qty = 1/2, reason = JString ''momentum'' \<rparr>"

text \<open>
  An executor for the examples of the runner: the paper executor on a finite quantity,
  made to throw on any other. (The source's \<open>PaperExecutor\<close> does not throw there: it
  computes with \<open>Infinity\<close> and \<open>NaN\<close>, values the reals of this model do not have.)
\<close>

definition guarded_paper :: "PaperExecutor \<Rightarrow> Executor" where
  "guarded_paper ex a q ctx = (case q of Finite r \<Rightarrow> Some (execute ex a r ctx) | _ \<Rightarrow> None)"

section \<open>The engine: properties\<close>

lemmas engine_defs =
  execute_def buy_def sell_def applySlippage_def calculatePositionValue_def Let_def

lemmas runner_defs = snapshot_def commit_def new_AgentRunner_def flat_def

subsection \<open>Short round trip\<close>

text \<open>
  C1. Without slippage and fee, SELL \<open>q\<close> from a flat position at price \<open>p\<close> followed by
  BUY \<open>q\<close> at the same price ends flat, but the final cash is the starting cash plus
  \<open>q * p\<close>: the SELL credits the proceeds and the closing BUY adds only the realized
  profit and loss (zero here); the cost of buying back, computed as \<open>totalCloseCost\<close>, is
  never debited. The round trip does not return the starting cash.
\<close>

theorem short_round_trip_cash:
  assumes "slippage ex = 0" and "takerFee ex = 0" and "0 < p" and "0 < q"
  shows "let st0 = new_AgentRunner s c cd;
             st1 = commit st0 (execute ex SELL q (snapshot st0 p));
             r2 = execute ex BUY q (snapshot st1 p)
         in side (r_position st1) = SHORT \<and> success r2 \<and> side (res_position r2) = NONE
            \<and> res_cash r2 = c + q * p"
  using assms by (simp add: engine_defs runner_defs)

theorem short_round_trip_cash_witness:
  "side (res_position (execute frictionless BUY 1
      (snapshot (commit (new_AgentRunner ''PERP'' 100 None)
         (execute frictionless SELL 1 (snapshot (new_AgentRunner ''PERP'' 100 None) 10))) 10))) = NONE
   \<and> res_cash (execute frictionless BUY 1
      (snapshot (commit (new_AgentRunner ''PERP'' 100 None)
         (execute frictionless SELL 1 (snapshot (new_AgentRunner ''PERP'' 100 None) 10))) 10)) = 110"
  using short_round_trip_cash [of frictionless 10 1 "''PERP''" 100 None]
  by (simp add: frictionless_def Let_def)

subsection \<open>SELL that closes a LONG position exactly\<close>

text \<open>
  What the closing branches compute, for any position and quantity: a SELL that closes a
  LONG position credits the net proceeds of the closed quantity.
\<close>

lemma sell_full_close_long_result:
  assumes "side (position ctx) = LONG" and "q = qty (position ctx)"
  shows "execute ex SELL q ctx =
     \<lparr> success = True, action = SELL, res_qty = q,
       price = currentPrice ctx * (1 - slippage ex),
       res_cash = cash ctx + (q * (currentPrice ctx * (1 - slippage ex))
                    - q * (currentPrice ctx * (1 - slippage ex)) * takerFee ex),
       res_position = flat (ctx_symbol ctx),
       res_equity = cash ctx + (q * (currentPrice ctx * (1 - slippage ex))
                    - q * (currentPrice ctx * (1 - slippage ex)) * takerFee ex),
       pnl = Some ((currentPrice ctx * (1 - slippage ex) - avgPrice (position ctx)) * q
                    - q * (currentPrice ctx * (1 - slippage ex)) * takerFee ex),
       error = None \<rparr>"
  using assms by (simp add: engine_defs flat_def)

text \<open>
  C3, as stated, fails: closing LONG 1 bought at 100 with SELL 1 at 110 (no slippage, no
  fee) realizes a profit of 10, and the new cash is 110, not the old cash 0 plus 10.
\<close>

theorem sell_full_close_long_counterexample:
  "side (position long_ctx) = LONG \<and> qty (position long_ctx) = 1
   \<and> pnl (execute frictionless SELL 1 long_ctx) = Some 10
   \<and> res_cash (execute frictionless SELL 1 long_ctx) = 110
   \<and> res_cash (execute frictionless SELL 1 long_ctx) \<noteq> cash long_ctx + 10"
  by (simp add: engine_defs long_ctx_def frictionless_def)

text \<open>
  C3, amended. A SELL whose quantity equals the open LONG quantity succeeds, leaves the
  flat position, reports the realized profit and loss
  \<open>(fillPrice - avgPrice) * longQty - fee\<close>, and credits the net proceeds:
  new cash = old cash + \<open>longQty * fillPrice - fee\<close>, which is the old cash plus the
  realized profit and loss plus the entry cost \<open>avgPrice * longQty\<close>.
\<close>

theorem sell_full_close_long:
  assumes "side (position ctx) = LONG" and "q = qty (position ctx)"
  shows "success (execute ex SELL q ctx)
    \<and> res_position (execute ex SELL q ctx) = flat (ctx_symbol ctx)
    \<and> pnl (execute ex SELL q ctx)
        = Some ((applySlippage ex (currentPrice ctx) SELL - avgPrice (position ctx)) * q
                - q * applySlippage ex (currentPrice ctx) SELL * takerFee ex)
    \<and> res_cash (execute ex SELL q ctx)
        = cash ctx + (q * applySlippage ex (currentPrice ctx) SELL
                      - q * applySlippage ex (currentPrice ctx) SELL * takerFee ex)
    \<and> res_cash (execute ex SELL q ctx)
        = cash ctx + the (pnl (execute ex SELL q ctx)) + avgPrice (position ctx) * q"
  using assms by (simp add: engine_defs flat_def algebra_simps)

theorem sell_full_close_long_witness:
  "success (execute frictionless SELL 1 long_ctx)
   \<and> res_position (execute frictionless SELL 1 long_ctx) = flat ''PERP''
   \<and> pnl (execute frictionless SELL 1 long_ctx) = Some 10
   \<and> res_cash (execute frictionless SELL 1 long_ctx) = 0 + 10 + 100 * 1"
  using sell_full_close_long [of long_ctx 1 frictionless]
  by (simp add: long_ctx_def frictionless_def applySlippage_def)

subsection \<open>The position invariant\<close>

text \<open>
  C4, as stated, fails at quantity zero: BUY 0 on a flat position with cash 0 succeeds
  and returns a LONG position of quantity 0.
\<close>

theorem position_invariant_counterexample:
  "pos_inv (position (snapshot (new_AgentRunner ''PERP'' 0 None) 1))
   \<and> success (execute frictionless BUY 0 (snapshot (new_AgentRunner ''PERP'' 0 None) 1))
   \<and> side (res_position (execute frictionless BUY 0 (snapshot (new_AgentRunner ''PERP'' 0 None) 1))) = LONG
   \<and> qty (res_position (execute frictionless BUY 0 (snapshot (new_AgentRunner ''PERP'' 0 None) 1))) = 0
   \<and> \<not> pos_inv (res_position (execute frictionless BUY 0 (snapshot (new_AgentRunner ''PERP'' 0 None) 1)))"
  by (simp add: engine_defs runner_defs pos_inv_def frictionless_def)

text \<open>
  C4, amended. For every context whose position satisfies the invariant, every action and
  every quantity \<open>q \<ge> 0\<close>, where \<open>q > 0\<close> whenever a BUY or SELL meets a flat position:
  if \<open>execute\<close> succeeds, the returned position satisfies the invariant.
\<close>

theorem position_invariant:
  assumes "pos_inv (position ctx)" and "0 \<le> q"
    and "q = 0 \<longrightarrow> a = HOLD \<or> side (position ctx) \<noteq> NONE"
    and "success (execute ex a q ctx)"
  shows "pos_inv (res_position (execute ex a q ctx))"
  using assms
  by (cases "side (position ctx)")
     (auto simp: engine_defs pos_inv_def split: if_splits PositionSide.splits)

theorem position_invariant_witness:
  "pos_inv (position long_ctx) \<and> success (execute frictionless SELL 3 long_ctx)
   \<and> side (res_position (execute frictionless SELL 3 long_ctx)) = SHORT
   \<and> pos_inv (res_position (execute frictionless SELL 3 long_ctx))"
proof -
  have a: "pos_inv (position long_ctx)" by (simp add: long_ctx_def pos_inv_def)
  have b: "success (execute frictionless SELL 3 long_ctx)"
    by (simp add: engine_defs long_ctx_def frictionless_def)
  have c: "side (res_position (execute frictionless SELL 3 long_ctx)) = SHORT"
    by (simp add: engine_defs long_ctx_def frictionless_def)
  from position_invariant [OF a _ _ b] a b c show ?thesis by simp
qed

subsection \<open>Insufficient funds\<close>

text \<open>When a BUY fails: the cash check of the branch taken, written out.\<close>

lemma buy_fails_iff:
  "\<not> success (execute ex BUY q ctx) \<longleftrightarrow>
     (if side (position ctx) = SHORT
      then \<bar>qty (position ctx)\<bar> < q
           \<and> cash ctx + ((avgPrice (position ctx) - applySlippage ex (currentPrice ctx) BUY) * \<bar>qty (position ctx)\<bar>
                          - \<bar>qty (position ctx)\<bar> * applySlippage ex (currentPrice ctx) BUY * takerFee ex)
             < (q - \<bar>qty (position ctx)\<bar>) * applySlippage ex (currentPrice ctx) BUY
               + (q - \<bar>qty (position ctx)\<bar>) * applySlippage ex (currentPrice ctx) BUY * takerFee ex
      else cash ctx < q * applySlippage ex (currentPrice ctx) BUY
                      + q * applySlippage ex (currentPrice ctx) BUY * takerFee ex)"
  by (cases "side (position ctx)") (auto simp: engine_defs)

text \<open>
  C5. Whenever \<open>execute\<close> of a BUY returns \<open>success = false\<close>, in the accumulate branch
  or in the remainder leg of a flip, the returned cash, position and equity are those of
  the context.
\<close>

theorem buy_failure_atomic:
  assumes "\<not> success (execute ex BUY q ctx)"
  shows "res_cash (execute ex BUY q ctx) = cash ctx
    \<and> res_position (execute ex BUY q ctx) = position ctx
    \<and> res_equity (execute ex BUY q ctx) = equity ctx"
  using assms by (auto simp: engine_defs split: if_splits)

text \<open>
  The witness is a flip: BUY 3 against SHORT 2 closes the short at a loss of 200, and the
  remainder of 1 at 200 exceeds the cash of -200 left after the close.
\<close>

theorem buy_failure_atomic_witness:
  "\<not> success (execute frictionless BUY 3 short_ctx)
   \<and> error (execute frictionless BUY 3 short_ctx) = Some (InsufficientCashForLong 200 (- 200))
   \<and> res_cash (execute frictionless BUY 3 short_ctx) = 0
   \<and> res_position (execute frictionless BUY 3 short_ctx) = position short_ctx
   \<and> res_equity (execute frictionless BUY 3 short_ctx) = - 200"
proof -
  have f: "\<not> success (execute frictionless BUY 3 short_ctx)"
    by (simp add: engine_defs short_ctx_def frictionless_def)
  have e: "error (execute frictionless BUY 3 short_ctx) = Some (InsufficientCashForLong 200 (- 200))"
    by (simp add: engine_defs short_ctx_def frictionless_def)
  from buy_failure_atomic [OF f] f e show ?thesis by (simp add: short_ctx_def)
qed

lemma buy_failure_accumulate_example:
  "error (execute frictionless BUY 2 (snapshot (new_AgentRunner ''PERP'' 100 None) 60))
     = Some (InsufficientCash 120 100)
   \<and> res_cash (execute frictionless BUY 2 (snapshot (new_AgentRunner ''PERP'' 100 None) 60)) = 100"
  by (simp add: engine_defs runner_defs frictionless_def)

subsection \<open>The equity identity\<close>

text \<open>
  C6, as stated, fails for HOLD, which is a successful result and echoes the equity of
  the context: with LONG 1 at 100, cash 0 and equity 0 recorded when the price was 100, a
  HOLD at price 110 returns equity 0, while cash plus unrealized profit and loss is 10.
\<close>

theorem equity_identity_counterexample:
  "pos_inv (position long_ctx) \<and> success (execute frictionless HOLD 0 long_ctx)
   \<and> res_equity (execute frictionless HOLD 0 long_ctx) = 0
   \<and> res_cash (execute frictionless HOLD 0 long_ctx)
       + unrealizedPnL (res_position (execute frictionless HOLD 0 long_ctx)) (currentPrice long_ctx) = 10"
  by (simp add: engine_defs long_ctx_def pos_inv_def unrealizedPnL_def)

text \<open>
  C6, amended. Every successful result of a BUY or SELL (with a quantity \<open>q \<ge> 0\<close> on a
  context whose position satisfies the invariant) has
  \<open>equity = cash + unrealizedPnL position currentPrice\<close>, marked at the market price of
  the context and not at the fill price; HOLD echoes the equity of the context.
\<close>

theorem equity_identity:
  assumes "a \<noteq> HOLD" and "0 \<le> q" and "pos_inv (position ctx)"
    and "success (execute ex a q ctx)"
  shows "res_equity (execute ex a q ctx)
    = res_cash (execute ex a q ctx)
      + unrealizedPnL (res_position (execute ex a q ctx)) (currentPrice ctx)"
  using assms
  by (cases a; cases "side (position ctx)")
     (auto simp: engine_defs pos_inv_def unrealizedPnL_def split: if_splits)

text \<open>
  The witness runs with slippage: SELL 3 against LONG 1 at market price 110 fills at 99,
  leaves SHORT 2 at 99 and cash 297, and the equity 275 marks the short at 110.
\<close>

theorem equity_identity_witness:
  "success (execute \<lparr> slippage = 1/10, takerFee = 0 \<rparr> SELL 3 long_ctx)
   \<and> price (execute \<lparr> slippage = 1/10, takerFee = 0 \<rparr> SELL 3 long_ctx) = 99
   \<and> res_cash (execute \<lparr> slippage = 1/10, takerFee = 0 \<rparr> SELL 3 long_ctx) = 297
   \<and> res_equity (execute \<lparr> slippage = 1/10, takerFee = 0 \<rparr> SELL 3 long_ctx) = 275
   \<and> res_equity (execute \<lparr> slippage = 1/10, takerFee = 0 \<rparr> SELL 3 long_ctx)
       = res_cash (execute \<lparr> slippage = 1/10, takerFee = 0 \<rparr> SELL 3 long_ctx)
         + unrealizedPnL (res_position (execute \<lparr> slippage = 1/10, takerFee = 0 \<rparr> SELL 3 long_ctx)) 110"
proof -
  have a: "pos_inv (position long_ctx)" by (simp add: long_ctx_def pos_inv_def)
  have b: "success (execute \<lparr> slippage = 1/10, takerFee = 0 \<rparr> SELL 3 long_ctx)"
    by (simp add: engine_defs long_ctx_def)
  have c: "price (execute \<lparr> slippage = 1/10, takerFee = 0 \<rparr> SELL 3 long_ctx) = 99
     \<and> res_cash (execute \<lparr> slippage = 1/10, takerFee = 0 \<rparr> SELL 3 long_ctx) = 297
     \<and> res_equity (execute \<lparr> slippage = 1/10, takerFee = 0 \<rparr> SELL 3 long_ctx) = 275"
    by (simp add: engine_defs long_ctx_def)
  have d: "currentPrice long_ctx = 110" by (simp add: long_ctx_def)
  from equity_identity [OF _ _ a b] b c d show ?thesis by simp
qed

subsection \<open>Cash can become negative\<close>

text \<open>A BUY below the short quantity always succeeds and adds the realized result to cash.\<close>

lemma buy_partial_close_short:
  assumes "side (position ctx) = SHORT" and "q < \<bar>qty (position ctx)\<bar>"
  shows "success (execute ex BUY q ctx)
    \<and> res_cash (execute ex BUY q ctx)
        = cash ctx + ((avgPrice (position ctx) - applySlippage ex (currentPrice ctx) BUY) * q
                      - q * applySlippage ex (currentPrice ctx) BUY * takerFee ex)"
  using assms by (simp add: engine_defs)

text \<open>
  C10. There is a context with non-negative cash and an open SHORT position on which a
  BUY below the short quantity succeeds and returns negative cash: SHORT 2 sold at 100,
  cash 0, BUY 1 at 200 realizes -100.
\<close>

theorem cash_can_go_negative:
  "\<exists>ex ctx q. 0 \<le> cash ctx \<and> pos_inv (position ctx) \<and> side (position ctx) = SHORT
     \<and> 0 < q \<and> q < \<bar>qty (position ctx)\<bar>
     \<and> success (execute ex BUY q ctx) \<and> res_cash (execute ex BUY q ctx) < 0"
proof -
  have "0 \<le> cash short_ctx \<and> pos_inv (position short_ctx) \<and> side (position short_ctx) = SHORT
     \<and> (0::real) < 1 \<and> 1 < \<bar>qty (position short_ctx)\<bar>
     \<and> success (execute frictionless BUY 1 short_ctx)
     \<and> res_cash (execute frictionless BUY 1 short_ctx) < 0"
    by (simp add: engine_defs short_ctx_def frictionless_def pos_inv_def)
  then show ?thesis by blast
qed

subsection \<open>Average price of accumulated BUYs\<close>

lemma buy_from_flat:
  assumes "side (r_position st) = NONE" "qty (r_position st) = 0"
    and "success (execute ex BUY q (snapshot st p))"
  shows "side (r_position (commit st (execute ex BUY q (snapshot st p)))) = LONG
    \<and> qty (r_position (commit st (execute ex BUY q (snapshot st p)))) = q
    \<and> avgPrice (r_position (commit st (execute ex BUY q (snapshot st p)))) = applySlippage ex p BUY"
  using assms by (auto simp: engine_defs snapshot_def commit_def split: if_splits)

lemma buy_from_long:
  assumes "side (r_position st) = LONG" "0 < qty (r_position st)" "0 < q"
    and "success (execute ex BUY q (snapshot st p))"
  shows "side (r_position (commit st (execute ex BUY q (snapshot st p)))) = LONG
    \<and> qty (r_position (commit st (execute ex BUY q (snapshot st p)))) = qty (r_position st) + q
    \<and> avgPrice (r_position (commit st (execute ex BUY q (snapshot st p)))) * (qty (r_position st) + q)
        = avgPrice (r_position st) * qty (r_position st) + applySlippage ex p BUY * q"
  using assms by (auto simp: engine_defs snapshot_def commit_def split: if_splits)

lemma buys_from_long:
  "side (r_position st) = LONG \<Longrightarrow> 0 < qty (r_position st) \<Longrightarrow> \<forall>x\<in>set os. 0 < snd x \<Longrightarrow>
   buys ex st os = Some st' \<Longrightarrow>
   side (r_position st') = LONG
   \<and> qty (r_position st') = qty (r_position st) + sum_list (map snd os)
   \<and> avgPrice (r_position st') * qty (r_position st')
       = avgPrice (r_position st) * qty (r_position st)
         + sum_list (map (\<lambda>x. applySlippage ex (fst x) BUY * snd x) os)"
proof (induction os arbitrary: st)
  case Nil
  then show ?case by simp
next
  case (Cons x os)
  obtain p q where x: "x = (p, q)" by (cases x)
  let ?r = "execute ex BUY q (snapshot st p)"
  let ?c = "r_position (commit st ?r)"
  from Cons.prems(4) x have ok: "success ?r" and rest: "buys ex (commit st ?r) os = Some st'"
    by (auto simp: Let_def split: if_splits)
  from Cons.prems(3) x have q: "0 < q" and qs: "\<forall>x\<in>set os. 0 < snd x" by auto
  note one = buy_from_long [OF Cons.prems(1) Cons.prems(2) q ok]
  have c1: "side ?c = LONG" and c2: "qty ?c = qty (r_position st) + q"
    and c3: "avgPrice ?c * (qty (r_position st) + q)
             = avgPrice (r_position st) * qty (r_position st) + applySlippage ex p BUY * q"
    using one by blast+
  have pos: "0 < qty ?c" using c2 Cons.prems(2) q by simp
  note ih = Cons.IH [OF c1 pos qs rest]
  have i1: "side (r_position st') = LONG"
    and i2: "qty (r_position st') = qty ?c + sum_list (map snd os)"
    and i3: "avgPrice (r_position st') * qty (r_position st')
             = avgPrice ?c * qty ?c + sum_list (map (\<lambda>x. applySlippage ex (fst x) BUY * snd x) os)"
    using ih by blast+
  have g2: "qty (r_position st') = qty (r_position st) + sum_list (map snd (x # os))"
    unfolding i2 c2 by (simp add: x)
  have "avgPrice ?c * qty ?c
        = avgPrice (r_position st) * qty (r_position st) + applySlippage ex p BUY * q"
    unfolding c2 by (rule c3)
  then have g3: "avgPrice (r_position st') * qty (r_position st')
       = avgPrice (r_position st) * qty (r_position st)
         + sum_list (map (\<lambda>x. applySlippage ex (fst x) BUY * snd x) (x # os))"
    unfolding i3 by (simp add: x)
  show ?case using i1 g2 g3 by blast
qed

text \<open>
  C7. A non-empty sequence of successful BUY executions from a flat position, the i-th
  with quantity \<open>q\<^sub>i > 0\<close> at market price \<open>p\<^sub>i\<close>, ends in a LONG position whose quantity is
  the sum of the \<open>q\<^sub>i\<close> and whose average price is the sum of \<open>fill p\<^sub>i * q\<^sub>i\<close> divided by
  the sum of the \<open>q\<^sub>i\<close>, where \<open>fill p\<^sub>i\<close> is the slippage-adjusted price.
\<close>

theorem average_price:
  assumes "side (r_position st) = NONE" "qty (r_position st) = 0"
    and "os \<noteq> []" "\<forall>x\<in>set os. 0 < snd x"
    and "buys ex st os = Some st'"
  shows "side (r_position st') = LONG
    \<and> qty (r_position st') = sum_list (map snd os)
    \<and> avgPrice (r_position st')
        = sum_list (map (\<lambda>x. applySlippage ex (fst x) BUY * snd x) os) / sum_list (map snd os)"
proof -
  obtain p q os' where os: "os = (p, q) # os'" using assms(3) by (cases os) auto
  let ?r = "execute ex BUY q (snapshot st p)"
  let ?c = "r_position (commit st ?r)"
  from assms(5) os have ok: "success ?r" and rest: "buys ex (commit st ?r) os' = Some st'"
    by (auto simp: Let_def split: if_splits)
  from assms(4) os have q: "0 < q" and qs: "\<forall>x\<in>set os'. 0 < snd x" by auto
  note one = buy_from_flat [OF assms(1) assms(2) ok]
  have c1: "side ?c = LONG" and c2: "qty ?c = q" and c3: "avgPrice ?c = applySlippage ex p BUY"
    using one by blast+
  have pos: "0 < qty ?c" using c2 q by simp
  note ih = buys_from_long [OF c1 pos qs rest]
  have i1: "side (r_position st') = LONG"
    and i2: "qty (r_position st') = qty ?c + sum_list (map snd os')"
    and i3: "avgPrice (r_position st') * qty (r_position st')
             = avgPrice ?c * qty ?c + sum_list (map (\<lambda>x. applySlippage ex (fst x) BUY * snd x) os')"
    using ih by blast+
  have g2: "qty (r_position st') = sum_list (map snd os)"
    unfolding i2 c2 by (simp add: os)
  have g3: "avgPrice (r_position st') * qty (r_position st')
            = sum_list (map (\<lambda>x. applySlippage ex (fst x) BUY * snd x) os)"
    unfolding i3 c2 c3 by (simp add: os)
  have "0 \<le> sum_list (map snd os')" using qs by (intro sum_list_nonneg) (auto intro: less_imp_le)
  then have tot: "qty (r_position st') \<noteq> 0" unfolding i2 c2 using q by simp
  have "avgPrice (r_position st')
        = (avgPrice (r_position st') * qty (r_position st')) / qty (r_position st')"
    using tot by simp
  then have "avgPrice (r_position st')
        = sum_list (map (\<lambda>x. applySlippage ex (fst x) BUY * snd x) os) / sum_list (map snd os)"
    unfolding g3 unfolding g2 .
  then show ?thesis using i1 g2 by blast
qed

theorem average_price_witness:
  "side (r_position (the (buys frictionless (new_AgentRunner ''PERP'' 1000 None) [(100, 1), (130, 2)]))) = LONG
   \<and> qty (r_position (the (buys frictionless (new_AgentRunner ''PERP'' 1000 None) [(100, 1), (130, 2)]))) = 3
   \<and> avgPrice (r_position (the (buys frictionless (new_AgentRunner ''PERP'' 1000 None) [(100, 1), (130, 2)]))) = 120"
proof -
  have run: "buys frictionless (new_AgentRunner ''PERP'' 1000 None) [(100, 1), (130, 2)] \<noteq> None"
    by (simp add: engine_defs snapshot_def commit_def new_AgentRunner_def flat_def frictionless_def)
  then obtain st' where st': "buys frictionless (new_AgentRunner ''PERP'' 1000 None) [(100, 1), (130, 2)] = Some st'"
    by blast
  have "side (r_position (new_AgentRunner ''PERP'' 1000 None)) = NONE"
       "qty (r_position (new_AgentRunner ''PERP'' 1000 None)) = 0"
    by (simp_all add: new_AgentRunner_def flat_def)
  from average_price [OF this _ _ st']
  have "side (r_position st') = LONG \<and> qty (r_position st') = 3 \<and> avgPrice (r_position st') = 120"
    by (simp add: applySlippage_def frictionless_def)
  then show ?thesis by (simp only: st' option.sel)
qed

section \<open>The decision provider: properties\<close>

lemma includes_action_truthy: "includes_action v = Some a \<Longrightarrow> truthy v"
  by (auto simp: includes_action_def split: if_splits)

lemma validate_object:
  "validate (JObject kvs) =
     (case includes_action (map_of (rev kvs) ''action'') of
        None \<Rightarrow> Inl InvalidAction
      | Some a \<Rightarrow>
          Inr \<lparr> dec_action = a,
                dec_qty = (case map_of (rev kvs) ''qty'' of
                             Some (JNumber r) \<Rightarrow> max 0 (min 1 r)
                           | _ \<Rightarrow> 0),
                reason = (if truthy (map_of (rev kvs) ''reason'')
                          then the (map_of (rev kvs) ''reason'')
                          else JString ''No reason provided'') \<rparr>)"
  by (auto simp: validate_def Let_def includes_action_truthy split: option.splits json.splits)

lemma parseDecision_unparsed:
  "jsonMatch txt = None \<or> (\<exists>m. jsonMatch txt = Some m \<and> json_parse m = None)
   \<Longrightarrow> parseDecision json_parse txt = hold_failed"
  by (auto simp: parseDecision_def parseDecision_try_def hold_failed_def)

lemma jsonMatch_buy_five_text:
  \<open>jsonMatch buy_five_text = Some ''{"action":"BUY","qty":5,"reason":"breakout"}''\<close>
  by (simp add: jsonMatch_def buy_five_text_def)

text \<open>
  C2, as stated, fails: a response with the valid action BUY and the quantity 5 (outside
  \<open>[0,1]\<close>) is not turned into HOLD with quantity 0. The quantity is clamped to 1, the
  action stays BUY, and the runner sizes the order from it: with equity 1000 at price 100
  the absolute quantity is 10.
\<close>

theorem coercion_counterexample:
  "parseDecision example_parse buy_five_text
     = \<lparr> dec_action = BUY, dec_qty = 1, reason = JString ''breakout'' \<rparr>
   \<and> dec_action (parseDecision example_parse buy_five_text) \<noteq> HOLD
   \<and> absoluteQty (parseDecision example_parse buy_five_text) 1000 100 = Finite 10"
  by (simp add: parseDecision_def parseDecision_try_def jsonMatch_buy_five_text example_parse_def
      validate_object buy_five_def includes_action_def absoluteQty_def js_divide_def)

text \<open>
  C2, amended. For a response that parses to an object: if its action is not one of
  BUY, SELL, HOLD, the decision is HOLD with quantity 0 and the reason
  \<open>Failed to parse decision\<close>; if its action is one of the three, the action is kept and
  the quantity is clamped into \<open>[0,1]\<close>, a quantity that is not a number counting as 0.
  (A response without braces, or one that does not parse, gives the same HOLD:
  \<open>parseDecision_unparsed\<close>.)
\<close>

theorem parseDecision_object:
  assumes "jsonMatch txt = Some m" and "json_parse m = Some (JObject kvs)"
  shows "parseDecision json_parse txt =
     (case includes_action (map_of (rev kvs) ''action'') of
        None \<Rightarrow> hold_failed
      | Some a \<Rightarrow>
          \<lparr> dec_action = a,
            dec_qty = (case map_of (rev kvs) ''qty'' of
                         Some (JNumber r) \<Rightarrow> max 0 (min 1 r)
                       | _ \<Rightarrow> 0),
            reason = (if truthy (map_of (rev kvs) ''reason'')
                      then the (map_of (rev kvs) ''reason'')
                      else JString ''No reason provided'') \<rparr>)"
  using assms
  by (simp add: parseDecision_def parseDecision_try_def validate_object hold_failed_def
      split: option.splits)

theorem parseDecision_object_witness:
  "parseDecision example_parse wait_text
     = \<lparr> dec_action = HOLD, dec_qty = 0, reason = JString ''Failed to parse decision'' \<rparr>"
proof -
  have a: "jsonMatch wait_text = Some wait_text"
    by (simp add: jsonMatch_def wait_text_def)
  have b: "example_parse wait_text
           = Some (JObject [(''action'', JString ''WAIT''), (''qty'', JNumber (1/2))])"
    by (simp add: example_parse_def wait_text_def wait_json_def)
  from parseDecision_object [where json_parse = example_parse, OF a b] show ?thesis
    by (simp add: includes_action_def hold_failed_def)
qed

lemma parseDecision_nonnumeric_example:
  "parseDecision example_parse sell_lots_text
     = \<lparr> dec_action = SELL, dec_qty = 0, reason = JString ''No reason provided'' \<rparr>"
  by (simp add: parseDecision_def parseDecision_try_def jsonMatch_def sell_lots_text_def
      example_parse_def validate_object sell_lots_def includes_action_def)

section \<open>The runner: properties\<close>

lemma onTick_dropped:
  "executing st \<or> now - lastExecutionTime st < cooldownMs st \<Longrightarrow> onTick now p st = (st, [])"
  by (auto simp: onTick_def)

lemma onTick_accepted:
  "\<not> executing st \<Longrightarrow> \<not> now - lastExecutionTime st < cooldownMs st \<Longrightarrow>
   onTick now p st =
     (st \<lparr> executing := True, lastExecutionTime := now, pending := Some (snapshot st p) \<rparr>,
      [Requested (snapshot st p)])"
  by (simp add: onTick_def Let_def)

lemma run_append:
  "run exec (xs @ ys) st =
     (let (st1, out1) = run exec xs st; (st2, out2) = run exec ys st1 in (st2, out1 @ out2))"
  by (induction xs arbitrary: st) (auto simp: Let_def split: prod.splits)

lemma step_idle:
  "\<not> is_tick e \<Longrightarrow> pending st = None \<Longrightarrow> step exec e st = (st, [])"
  by (cases e) (auto simp: resume_def fault_def)

lemma step_completes:
  assumes "\<not> is_tick e" and "pending st = Some ctx" and "step exec e st = (st', out)"
  shows "pending st' = None \<and> \<not> executing st'
    \<and> lastExecutionTime st' = lastExecutionTime st \<and> cooldownMs st' = cooldownMs st
    \<and> filter is_request out = [] \<and> length (filter is_execution out) \<le> 1"
  using assms
  by (cases e) (auto simp: resume_def fault_def commit_def Let_def split: option.splits if_splits)

lemma run_idle:
  "\<forall>e\<in>set es. \<not> is_tick e \<Longrightarrow> pending st = None \<Longrightarrow> run exec es st = (st, [])"
  by (induction es) (auto simp: step_idle)

lemma run_nonticks:
  assumes "\<forall>e\<in>set es. \<not> is_tick e" and "pending st = Some ctx" and "run exec es st = (st', out)"
  shows "lastExecutionTime st' = lastExecutionTime st \<and> cooldownMs st' = cooldownMs st
    \<and> filter is_request out = [] \<and> length (filter is_execution out) \<le> 1"
proof (cases es)
  case Nil
  with assms(3) show ?thesis by simp
next
  case (Cons e es')
  obtain st1 out1 where s1: "step exec e st = (st1, out1)" by (cases "step exec e st")
  from assms(1) Cons have e: "\<not> is_tick e" and es': "\<forall>e\<in>set es'. \<not> is_tick e" by auto
  note c = step_completes [OF e assms(2) s1]
  have "run exec es' st1 = (st1, [])" using run_idle [OF es'] c by blast
  with assms(3) Cons s1 have "st' = st1" "out = out1" by auto
  with c show ?thesis by simp
qed

text \<open>
  C8. A tick that arrives while \<open>executing\<close> is true, or less than \<open>cooldownMs\<close> after
  \<open>lastExecutionTime\<close>, leaves the state as it is and has no effect: no decision is
  requested and nothing is executed. Consequently, when a tick at \<open>t1\<close> starts a cycle
  and, after any completions \<open>es\<close> of that cycle (none, the decision, a fault), a second
  tick arrives at \<open>t2\<close> while \<open>executing\<close> is still true or with \<open>t2 - t1 < cooldownMs\<close>,
  the run with the second tick equals the run without it: exactly one decision is
  requested and at most one execution takes place.
\<close>

theorem cooldown_mutual_exclusion:
  "(executing st \<or> now - lastExecutionTime st < cooldownMs st \<longrightarrow> onTick now p st = (st, []))
   \<and> (\<not> executing st \<and> \<not> t1 - lastExecutionTime st < cooldownMs st
      \<and> (\<forall>e\<in>set es. \<not> is_tick e)
      \<and> (executing (fst (run exec (Tick t1 p1 # es) st)) \<or> t2 - t1 < cooldownMs st)
      \<longrightarrow> run exec (Tick t1 p1 # es @ [Tick t2 p2]) st = run exec (Tick t1 p1 # es) st
          \<and> length (filter is_request (snd (run exec (Tick t1 p1 # es) st))) = 1
          \<and> length (filter is_execution (snd (run exec (Tick t1 p1 # es) st))) \<le> 1)"
proof (intro conjI impI)
  assume "executing st \<or> now - lastExecutionTime st < cooldownMs st"
  then show "onTick now p st = (st, [])" by (rule onTick_dropped)
next
  assume h: "\<not> executing st \<and> \<not> t1 - lastExecutionTime st < cooldownMs st
      \<and> (\<forall>e\<in>set es. \<not> is_tick e)
      \<and> (executing (fst (run exec (Tick t1 p1 # es) st)) \<or> t2 - t1 < cooldownMs st)"
  let ?st1 = "st \<lparr> executing := True, lastExecutionTime := t1, pending := Some (snapshot st p1) \<rparr>"
  have first: "onTick t1 p1 st = (?st1, [Requested (snapshot st p1)])"
    using h by (simp add: onTick_accepted)
  obtain st2 out2 where rest: "run exec es ?st1 = (st2, out2)" by (cases "run exec es ?st1")
  have tr: "run exec (Tick t1 p1 # es) st = (st2, Requested (snapshot st p1) # out2)"
    by (simp add: first rest)
  have n: "lastExecutionTime st2 = t1 \<and> cooldownMs st2 = cooldownMs st
    \<and> filter is_request out2 = [] \<and> length (filter is_execution out2) \<le> 1"
    using run_nonticks [OF _ _ rest, of "snapshot st p1"] h by simp
  have "executing (fst (run exec (Tick t1 p1 # es) st)) \<or> t2 - t1 < cooldownMs st"
    using h by blast
  then have "executing st2 \<or> t2 - t1 < cooldownMs st"
    unfolding tr by simp
  then have "executing st2 \<or> t2 - lastExecutionTime st2 < cooldownMs st2"
    using n by simp
  then have second: "onTick t2 p2 st2 = (st2, [])" by (rule onTick_dropped)
  have "run exec ((Tick t1 p1 # es) @ [Tick t2 p2]) st = (st2, Requested (snapshot st p1) # out2)"
    unfolding run_append tr by (simp add: second)
  then have a: "run exec (Tick t1 p1 # es @ [Tick t2 p2]) st = run exec (Tick t1 p1 # es) st"
    by (simp only: tr append_Cons)
  have b: "length (filter is_request (snd (run exec (Tick t1 p1 # es) st))) = 1"
    unfolding tr using n by simp
  have c: "length (filter is_execution (snd (run exec (Tick t1 p1 # es) st))) \<le> 1"
    unfolding tr using n by simp
  show "run exec (Tick t1 p1 # es @ [Tick t2 p2]) st = run exec (Tick t1 p1 # es) st" by (rule a)
  show "length (filter is_request (snd (run exec (Tick t1 p1 # es) st))) = 1" by (rule b)
  show "length (filter is_execution (snd (run exec (Tick t1 p1 # es) st))) \<le> 1" by (rule c)
qed

text \<open>
  The witness: a fresh runner with 1000 in cash and the default cooldown of 5000, a tick
  at 6000, the decision to buy with half of the equity, a second tick at 8000. The
  decision is applied once: 5 units at 100 leave 500 in cash.
\<close>

theorem cooldown_mutual_exclusion_witness:
  "run (guarded_paper frictionless) [Tick 6000 100, Decided buy_half, Tick 8000 105]
       (new_AgentRunner ''PERP'' 1000 None)
     = run (guarded_paper frictionless) [Tick 6000 100, Decided buy_half]
           (new_AgentRunner ''PERP'' 1000 None)
   \<and> length (filter is_request (snd (run (guarded_paper frictionless)
        [Tick 6000 100, Decided buy_half] (new_AgentRunner ''PERP'' 1000 None)))) = 1
   \<and> r_cash (fst (run (guarded_paper frictionless)
        [Tick 6000 100, Decided buy_half, Tick 8000 105] (new_AgentRunner ''PERP'' 1000 None))) = 500"
proof -
  let ?st = "new_AgentRunner ''PERP'' 1000 None"
  let ?ex = "guarded_paper frictionless"
  have h: "\<not> executing ?st \<and> \<not> 6000 - lastExecutionTime ?st < cooldownMs ?st
      \<and> (\<forall>e\<in>set [Decided buy_half]. \<not> is_tick e)
      \<and> (executing (fst (run ?ex (Tick 6000 100 # [Decided buy_half]) ?st))
          \<or> 8000 - 6000 < cooldownMs ?st)"
    by (simp add: new_AgentRunner_def)
  have c: "r_cash (fst (run ?ex [Tick 6000 100, Decided buy_half] ?st)) = 500"
    by (simp add: onTick_def resume_def absoluteQty_def js_divide_def guarded_paper_def
        buy_half_def frictionless_def engine_defs runner_defs)
  from cooldown_mutual_exclusion
         [where st = ?st and ?t1.0 = 6000 and ?p1.0 = 100 and es = "[Decided buy_half]"
            and exec = ?ex and ?t2.0 = 8000 and ?p2.0 = 105, THEN conjunct2, THEN mp, OF h]
  have "run ?ex [Tick 6000 100, Decided buy_half, Tick 8000 105] ?st
          = run ?ex [Tick 6000 100, Decided buy_half] ?st
        \<and> length (filter is_request (snd (run ?ex [Tick 6000 100, Decided buy_half] ?st))) = 1"
    by simp
  with c show ?thesis by simp
qed

subsection \<open>Sizing at price zero\<close>

lemma js_divide_zero: "0 < x \<Longrightarrow> js_divide x 0 = PosInfinity"
  by (simp add: js_divide_def)

text \<open>
  C9. The sizing divides \<open>decision.qty * equity\<close> by the current price with no guard.
  When the oracle has no price for the symbol and returns 0, and the decision is a BUY or
  SELL with a positive fraction on a positive equity, the sized quantity is positive
  infinity, and the cycle calls the executor with exactly that quantity.
\<close>

theorem zero_price_sizing:
  assumes "prices s = None"
    and "\<not> executing st" and "\<not> now - lastExecutionTime st < cooldownMs st"
    and "dec_action d \<noteq> HOLD" and "0 < dec_qty d" and "0 < r_equity st"
  shows "getPrice prices s = 0
    \<and> absoluteQty d (r_equity st) (getPrice prices s) = PosInfinity
    \<and> snd (run exec [Tick now (getPrice prices s), Decided d] st)
        = Requested (snapshot st 0) # Executed (dec_action d) PosInfinity (snapshot st 0)
          # (case exec (dec_action d) PosInfinity (snapshot st 0) of
               None \<Rightarrow> [] | Some r \<Rightarrow> [Reported r])"
proof -
  have p: "getPrice prices s = 0" using assms(1) by (simp add: getPrice_def)
  have "0 < dec_qty d * r_equity st" using assms(5,6) by simp
  then have q: "absoluteQty d (r_equity st) 0 = PosInfinity"
    using assms(4) by (simp add: absoluteQty_def js_divide_zero)
  have "snd (run exec [Tick now 0, Decided d] st)
        = Requested (snapshot st 0) # Executed (dec_action d) PosInfinity (snapshot st 0)
          # (case exec (dec_action d) PosInfinity (snapshot st 0) of
               None \<Rightarrow> [] | Some r \<Rightarrow> [Reported r])"
    using assms(2,3) q
    by (simp add: onTick_accepted resume_def Let_def snapshot_def split: option.splits)
  with p q show ?thesis by simp
qed

text \<open>
  The witness: a fresh runner with equity 1000, an oracle without prices, the decision to
  buy with half of the equity.
\<close>

theorem zero_price_sizing_witness:
  "getPrice Map.empty ''PERP'' = 0
   \<and> absoluteQty buy_half 1000 (getPrice Map.empty ''PERP'') = PosInfinity
   \<and> snd (run (guarded_paper frictionless) [Tick 6000 (getPrice Map.empty ''PERP''), Decided buy_half]
            (new_AgentRunner ''PERP'' 1000 None))
       = [Requested (snapshot (new_AgentRunner ''PERP'' 1000 None) 0),
          Executed BUY PosInfinity (snapshot (new_AgentRunner ''PERP'' 1000 None) 0)]"
proof -
  let ?st = "new_AgentRunner ''PERP'' 1000 None"
  have a: "(Map.empty :: string \<rightharpoonup> real) ''PERP'' = None" by simp
  have b: "\<not> executing ?st" "\<not> 6000 - lastExecutionTime ?st < cooldownMs ?st"
    "dec_action buy_half \<noteq> HOLD" "0 < dec_qty buy_half" "0 < r_equity ?st"
    by (simp_all add: new_AgentRunner_def buy_half_def)
  have d: "dec_action buy_half = BUY" by (simp add: buy_half_def)
  have e: "guarded_paper frictionless BUY PosInfinity (snapshot ?st 0) = None"
    by (simp add: guarded_paper_def)
  have r: "r_equity ?st = 1000" by (simp add: new_AgentRunner_def)
  note t = zero_price_sizing
             [where prices = Map.empty and s = "''PERP''" and st = ?st and now = 6000
                and d = buy_half and exec = "guarded_paper frictionless", OF a b]
  from t [unfolded d e r option.case] show ?thesis .
qed

end
